theory Spec2Isabelle
  imports Complex_Main "HOL-Library.Multiset"
begin

unbundle bit_operations_syntax

section \<open>Python values as the converter sees them\<close>

text \<open>
  \<^verbatim>\<open>convert_xcs_to_svg.py\<close> works on the tree that \<^verbatim>\<open>json.load\<close> returns: \<^verbatim>\<open>None\<close>,
  booleans, unbounded integers, floats, strings, lists and dictionaries with string keys.
  The script reads every field with \<^verbatim>\<open>dict.get\<close> and a default, and never checks a type,
  so the model keeps the values dynamically typed and makes every exception a result.

  Floats: a finite float is modelled by the rational number it denotes, and arithmetic on
  finite numbers is exact. So the model leaves out the rounding of a result, the sign of
  zero, and what Python does when a result or an integer operand is beyond the range of a
  double (an infinite result, or \<^verbatim>\<open>OverflowError\<close>): it describes documents whose numbers
  and intermediate results stay within that range, up to rounding. The three special
  values that \<^verbatim>\<open>json.load\<close> can deliver (\<^verbatim>\<open>Infinity\<close>, \<^verbatim>\<open>-Infinity\<close>, \<^verbatim>\<open>NaN\<close>, also
  \<^verbatim>\<open>1e999\<close>) are values of their own, with the arithmetic of IEEE 754, since the control
  flow of the script depends on them.
\<close>

datatype py_error = TypeError | AttributeError | ValueError | OverflowError
  | ZeroDivisionError | KeyError

datatype pyfloat = Fin rat | PosInf | NegInf | NaN

datatype pyval =
    PNone
  | PBool bool
  | PInt int
  | PFloat pyfloat
  | PStr string
  | PList "pyval list"
  | PDict "(string \<times> pyval) list"

text \<open>A number, as the arithmetic operators see it: \<^verbatim>\<open>bool\<close> is a subclass of \<^verbatim>\<open>int\<close>.\<close>

datatype pynum = NInt int | NFloat pyfloat

fun as_num :: "pyval \<Rightarrow> pynum option" where
  "as_num (PBool b) = Some (NInt (if b then 1 else 0))"
| "as_num (PInt n) = Some (NInt n)"
| "as_num (PFloat f) = Some (NFloat f)"
| "as_num _ = None"

fun of_num :: "pynum \<Rightarrow> pyval" where
  "of_num (NInt n) = PInt n"
| "of_num (NFloat f) = PFloat f"

text \<open>
  Built-in behaviour of Python that the script calls and that is not spelled out here is a
  parameter of the model: the text \<^verbatim>\<open>str(v)\<close> of a float, a list or a dictionary,
  \<^verbatim>\<open>int(s)\<close> on a string (\<open>None\<close> when it raises), and what \<^verbatim>\<open>sorted\<close> does on keys
  that are not all numbers ordered by \<^verbatim>\<open><\<close>. Every theorem holds for all such parameters.
\<close>

record builtins =
  py_int_of_str :: "string \<Rightarrow> int option"
  py_str_of :: "pyval \<Rightarrow> string"
  py_sorted_other :: "(pyval \<times> pyval) list \<Rightarrow> py_error + pyval list"

subsection \<open>Errors as values\<close>

definition ebind :: "'e + 'a \<Rightarrow> ('a \<Rightarrow> 'e + 'b) \<Rightarrow> 'e + 'b" where
  "ebind m f = (case m of Inl e \<Rightarrow> Inl e | Inr v \<Rightarrow> f v)"

subsection \<open>Formatting integers\<close>

text \<open>Decimal and hexadecimal digits of an integer of any size. (The limit that Python 3.11
  put on the number of digits of such a conversion is not modelled.)\<close>

definition hex_digit :: "nat \<Rightarrow> char" where
  "hex_digit d = ''0123456789abcdef'' ! d"

fun hex_of_nat :: "nat \<Rightarrow> string" where
  "hex_of_nat n = (if n < 16 then [hex_digit n] else hex_of_nat (n div 16) @ [hex_digit (n mod 16)])"

declare hex_of_nat.simps [simp del]

fun dec_of_nat :: "nat \<Rightarrow> string" where
  "dec_of_nat n = (if n < 10 then [hex_digit n] else dec_of_nat (n div 10) @ [hex_digit (n mod 10)])"

declare dec_of_nat.simps [simp del]

definition zero_pad :: "nat \<Rightarrow> string \<Rightarrow> string" where
  "zero_pad w s = replicate (w - length s) (CHR ''0'') @ s"

text \<open>The format specification \<^verbatim>\<open>:02x\<close>: lower-case hexadecimal, zero-padded to width 2,
  the sign counting towards the width.\<close>

definition format_02x :: "int \<Rightarrow> string" where
  "format_02x n =
     (if n < 0 then CHR ''-'' # zero_pad 1 (hex_of_nat (nat (- n)))
      else zero_pad 2 (hex_of_nat (nat n)))"

definition str_of_int :: "int \<Rightarrow> string" where
  "str_of_int n = (if n < 0 then CHR ''-'' # dec_of_nat (nat (- n)) else dec_of_nat (nat n))"

text \<open>\<^verbatim>\<open>f'{v}'\<close>, that is \<^verbatim>\<open>str(v)\<close>.\<close>

fun py_str :: "builtins \<Rightarrow> pyval \<Rightarrow> string" where
  "py_str B PNone = ''None''"
| "py_str B (PBool b) = (if b then ''True'' else ''False'')"
| "py_str B (PInt n) = str_of_int n"
| "py_str B (PStr s) = s"
| "py_str B v = py_str_of B v"

subsection \<open>Truth value, \<^verbatim>\<open>int()\<close> of a float\<close>

fun py_truthy :: "pyval \<Rightarrow> bool" where
  "py_truthy PNone = False"
| "py_truthy (PBool b) = b"
| "py_truthy (PInt n) = (n \<noteq> 0)"
| "py_truthy (PFloat f) = (f \<noteq> Fin 0)"
| "py_truthy (PStr s) = (s \<noteq> [])"
| "py_truthy (PList xs) = (xs \<noteq> [])"
| "py_truthy (PDict kvs) = (kvs \<noteq> [])"

text \<open>\<^verbatim>\<open>int(x)\<close> on a number truncates towards zero; it raises on the special floats.\<close>

fun num_to_int :: "pynum \<Rightarrow> py_error + int" where
  "num_to_int (NInt n) = Inr n"
| "num_to_int (NFloat (Fin r)) = Inr (if 0 \<le> r then \<lfloor>r\<rfloor> else \<lceil>r\<rceil>)"
| "num_to_int (NFloat PosInf) = Inl OverflowError"
| "num_to_int (NFloat NegInf) = Inl OverflowError"
| "num_to_int (NFloat NaN) = Inl ValueError"

section \<open>Color resolution: \<^verbatim>\<open>int_color_to_hex\<close>\<close>

text \<open>Lines 20 to 23: the three bytes of the packed color, each as two hex digits.\<close>

definition rgb_hex :: "int \<Rightarrow> string" where
  "rgb_hex color_val =
     (let r = (drop_bit 16 color_val) AND 255;
          g = (drop_bit 8 color_val) AND 255;
          b = color_val AND 255
      in CHR ''#'' # format_02x r @ format_02x g @ format_02x b)"

text \<open>Lines 18 to 24: what happens to a value that was not returned by the string branch.\<close>

definition color_of_value :: "pyval \<Rightarrow> py_error + string" where
  "color_of_value color_val =
     (case as_num color_val of
        Some n \<Rightarrow> ebind (num_to_int n) (\<lambda>c. Inr (rgb_hex c))
      | None \<Rightarrow> Inr ''#000000'')"

definition int_color_to_hex :: "builtins \<Rightarrow> pyval \<Rightarrow> py_error + string" where
  "int_color_to_hex B color_val =
     (case color_val of
        PStr s \<Rightarrow>
          (if take 1 s = ''#'' then Inr s
           else (case py_int_of_str B s of
                   None \<Rightarrow> Inr s
                 | Some n \<Rightarrow> color_of_value (PInt n)))
      | _ \<Rightarrow> color_of_value color_val)"

subsection \<open>Reading a hex string back\<close>

text \<open>The base-16 value of a string of hex digits, as \<^verbatim>\<open>int(s, 16)\<close> reads it.\<close>

definition hex_digit_val :: "char \<Rightarrow> int option" where
  "hex_digit_val c =
     (let k = of_char c :: nat in
      if 48 \<le> k \<and> k \<le> 57 then Some (int k - 48)
      else if 97 \<le> k \<and> k \<le> 102 then Some (int k - 87)
      else if 65 \<le> k \<and> k \<le> 70 then Some (int k - 55)
      else None)"

fun parse_hex_from :: "int \<Rightarrow> string \<Rightarrow> int option" where
  "parse_hex_from acc [] = Some acc"
| "parse_hex_from acc (c # cs) =
     (case hex_digit_val c of None \<Rightarrow> None | Some d \<Rightarrow> parse_hex_from (acc * 16 + d) cs)"

definition parse_hex :: "string \<Rightarrow> int option" where
  "parse_hex s = (if s = [] then None else parse_hex_from 0 s)"

section \<open>Numbers\<close>

subsection \<open>Float arithmetic with the special values\<close>

definition to_float :: "int \<Rightarrow> pyfloat" where
  "to_float n = Fin (of_int n)"

fun num_float :: "pynum \<Rightarrow> pyfloat" where
  "num_float (NInt n) = to_float n"
| "num_float (NFloat f) = f"

fun fneg :: "pyfloat \<Rightarrow> pyfloat" where
  "fneg (Fin r) = Fin (- r)"
| "fneg PosInf = NegInf"
| "fneg NegInf = PosInf"
| "fneg NaN = NaN"

fun fabs :: "pyfloat \<Rightarrow> pyfloat" where
  "fabs (Fin r) = Fin \<bar>r\<bar>"
| "fabs PosInf = PosInf"
| "fabs NegInf = PosInf"
| "fabs NaN = NaN"

fun fadd :: "pyfloat \<Rightarrow> pyfloat \<Rightarrow> pyfloat" where
  "fadd (Fin a) (Fin b) = Fin (a + b)"
| "fadd NaN _ = NaN"
| "fadd _ NaN = NaN"
| "fadd PosInf NegInf = NaN"
| "fadd NegInf PosInf = NaN"
| "fadd PosInf _ = PosInf"
| "fadd _ PosInf = PosInf"
| "fadd NegInf _ = NegInf"
| "fadd _ NegInf = NegInf"

definition fsub :: "pyfloat \<Rightarrow> pyfloat \<Rightarrow> pyfloat" where
  "fsub a b = fadd a (fneg b)"

fun fpositive :: "pyfloat \<Rightarrow> bool" where
  "fpositive (Fin r) = (0 < r)"
| "fpositive PosInf = True"
| "fpositive NegInf = False"
| "fpositive NaN = False"

fun fmul :: "pyfloat \<Rightarrow> pyfloat \<Rightarrow> pyfloat" where
  "fmul (Fin a) (Fin b) = Fin (a * b)"
| "fmul NaN _ = NaN"
| "fmul _ NaN = NaN"
| "fmul a b =
     (if a = Fin 0 \<or> b = Fin 0 then NaN
      else if fpositive a = fpositive b then PosInf else NegInf)"

text \<open>Python raises on a float division by zero, whatever the dividend.\<close>

fun fdiv :: "pyfloat \<Rightarrow> pyfloat \<Rightarrow> py_error + pyfloat" where
  "fdiv a (Fin b) =
     (if b = 0 then Inl ZeroDivisionError
      else (case a of
              Fin x \<Rightarrow> Inr (Fin (x / b))
            | NaN \<Rightarrow> Inr NaN
            | _ \<Rightarrow> Inr (if fpositive a = (0 < b) then PosInf else NegInf)))"
| "fdiv NaN _ = Inr NaN"
| "fdiv _ NaN = Inr NaN"
| "fdiv (Fin a) _ = Inr (Fin 0)"
| "fdiv _ _ = Inr NaN"

fun flt :: "pyfloat \<Rightarrow> pyfloat \<Rightarrow> bool" where
  "flt (Fin a) (Fin b) = (a < b)"
| "flt NaN _ = False"
| "flt _ NaN = False"
| "flt NegInf b = (b \<noteq> NegInf)"
| "flt a PosInf = (a \<noteq> PosInf)"
| "flt _ _ = False"

definition feq :: "pyfloat \<Rightarrow> pyfloat \<Rightarrow> bool" where
  "feq a b = (a = b \<and> a \<noteq> NaN)"

subsection \<open>The operators on numbers\<close>

text \<open>Two integers stay integers; a float operand makes the result a float. Integers and
  floats are compared by value.\<close>

fun num_add :: "pynum \<Rightarrow> pynum \<Rightarrow> pynum" where
  "num_add (NInt a) (NInt b) = NInt (a + b)"
| "num_add a b = NFloat (fadd (num_float a) (num_float b))"

fun num_sub :: "pynum \<Rightarrow> pynum \<Rightarrow> pynum" where
  "num_sub (NInt a) (NInt b) = NInt (a - b)"
| "num_sub a b = NFloat (fsub (num_float a) (num_float b))"

fun num_mul :: "pynum \<Rightarrow> pynum \<Rightarrow> pynum" where
  "num_mul (NInt a) (NInt b) = NInt (a * b)"
| "num_mul a b = NFloat (fmul (num_float a) (num_float b))"

text \<open>True division \<^verbatim>\<open>/\<close> always gives a float.\<close>

definition num_truediv :: "pynum \<Rightarrow> pynum \<Rightarrow> py_error + pynum" where
  "num_truediv a b = ebind (fdiv (num_float a) (num_float b)) (\<lambda>q. Inr (NFloat q))"

fun num_neg :: "pynum \<Rightarrow> pynum" where
  "num_neg (NInt n) = NInt (- n)"
| "num_neg (NFloat f) = NFloat (fneg f)"

fun num_abs :: "pynum \<Rightarrow> pynum" where
  "num_abs (NInt n) = NInt \<bar>n\<bar>"
| "num_abs (NFloat f) = NFloat (fabs f)"

fun num_lt :: "pynum \<Rightarrow> pynum \<Rightarrow> bool" where
  "num_lt (NInt a) (NInt b) = (a < b)"
| "num_lt a b = flt (num_float a) (num_float b)"

definition num_gt :: "pynum \<Rightarrow> pynum \<Rightarrow> bool" where
  "num_gt a b = num_lt b a"

fun num_eq :: "pynum \<Rightarrow> pynum \<Rightarrow> bool" where
  "num_eq (NInt a) (NInt b) = (a = b)"
| "num_eq a b = feq (num_float a) (num_float b)"

subsection \<open>The operators as the script applies them\<close>

text \<open>
  In every arithmetic expression and comparison of the script outside \<^verbatim>\<open>sorted\<close>, the
  right operand is a number: a literal, \<^verbatim>\<open>math.pi\<close>, or the result of an earlier numeric
  operation. The left operand is whatever the document holds.
\<close>

definition py_abs :: "pyval \<Rightarrow> py_error + pynum" where
  "py_abs v = (case as_num v of None \<Rightarrow> Inl TypeError | Some n \<Rightarrow> Inr (num_abs n))"

definition py_neg :: "pyval \<Rightarrow> py_error + pynum" where
  "py_neg v = (case as_num v of None \<Rightarrow> Inl TypeError | Some n \<Rightarrow> Inr (num_neg n))"

definition py_add :: "pyval \<Rightarrow> pynum \<Rightarrow> py_error + pynum" where
  "py_add v b = (case as_num v of None \<Rightarrow> Inl TypeError | Some a \<Rightarrow> Inr (num_add a b))"

definition py_sub :: "pyval \<Rightarrow> pynum \<Rightarrow> py_error + pynum" where
  "py_sub v b = (case as_num v of None \<Rightarrow> Inl TypeError | Some a \<Rightarrow> Inr (num_sub a b))"

text \<open>\<^verbatim>\<open>*\<close> also repeats a string or a list, when the number is an integer.\<close>

definition py_mul :: "pyval \<Rightarrow> pynum \<Rightarrow> py_error + pyval" where
  "py_mul v b =
     (case as_num v of
        Some a \<Rightarrow> Inr (of_num (num_mul a b))
      | None \<Rightarrow>
          (case (v, b) of
             (PStr s, NInt k) \<Rightarrow> Inr (PStr (concat (replicate (nat k) s)))
           | (PList xs, NInt k) \<Rightarrow> Inr (PList (concat (replicate (nat k) xs)))
           | _ \<Rightarrow> Inl TypeError))"

definition py_truediv :: "pyval \<Rightarrow> pynum \<Rightarrow> py_error + pynum" where
  "py_truediv v b = (case as_num v of None \<Rightarrow> Inl TypeError | Some a \<Rightarrow> num_truediv a b)"

definition py_lt :: "pyval \<Rightarrow> pynum \<Rightarrow> py_error + bool" where
  "py_lt v b = (case as_num v of None \<Rightarrow> Inl TypeError | Some a \<Rightarrow> Inr (num_lt a b))"

definition py_gt :: "pyval \<Rightarrow> pynum \<Rightarrow> py_error + bool" where
  "py_gt v b = (case as_num v of None \<Rightarrow> Inl TypeError | Some a \<Rightarrow> Inr (num_gt a b))"

text \<open>\<^verbatim>\<open>!=\<close> never raises: a value that is not a number differs from every number.\<close>

definition py_ne :: "pyval \<Rightarrow> pynum \<Rightarrow> bool" where
  "py_ne v b = (case as_num v of None \<Rightarrow> True | Some a \<Rightarrow> \<not> num_eq a b)"

text \<open>\<^verbatim>\<open>min(a, b)\<close> keeps \<open>a\<close> unless \<^verbatim>\<open>b < a\<close>; \<^verbatim>\<open>max(a, b)\<close> keeps \<open>a\<close> unless \<^verbatim>\<open>b > a\<close>.\<close>

definition py_min :: "pynum \<Rightarrow> pynum \<Rightarrow> pynum" where
  "py_min a b = (if num_lt b a then b else a)"

definition py_max :: "pynum \<Rightarrow> pynum \<Rightarrow> pynum" where
  "py_max a b = (if num_gt b a then b else a)"

text \<open>\<^verbatim>\<open>math.pi\<close>, the double nearest to \<open>\<pi>\<close>.\<close>

definition pi_double :: rat where
  "pi_double = 884279719003555 / 281474976710656"

definition math_pi :: pyfloat where
  "math_pi = Fin pi_double"

section \<open>Dictionaries and iteration\<close>

text \<open>A dictionary is the list of its entries; a key is looked up with \<open>map_of\<close>.\<close>

definition lookup_default :: "(string \<times> pyval) list \<Rightarrow> string \<Rightarrow> pyval \<Rightarrow> pyval" where
  "lookup_default kvs k dflt = (case map_of kvs k of None \<Rightarrow> dflt | Some x \<Rightarrow> x)"

text \<open>\<^verbatim>\<open>v.get(k, default)\<close>: only a dictionary has the method.\<close>

definition dict_get :: "pyval \<Rightarrow> string \<Rightarrow> pyval \<Rightarrow> py_error + pyval" where
  "dict_get v k dflt =
     (case v of
        PDict kvs \<Rightarrow> Inr (lookup_default kvs k dflt)
      | _ \<Rightarrow> Inl AttributeError)"

text \<open>\<^verbatim>\<open>v[k]\<close> on a dictionary.\<close>

definition dict_item :: "pyval \<Rightarrow> string \<Rightarrow> py_error + pyval" where
  "dict_item v k =
     (case v of
        PDict kvs \<Rightarrow> (case map_of kvs k of None \<Rightarrow> Inl KeyError | Some x \<Rightarrow> Inr x)
      | _ \<Rightarrow> Inl TypeError)"

text \<open>\<^verbatim>\<open>for d in v\<close>: a list gives its elements, a dictionary its keys, a string its
  characters; nothing else that JSON delivers can be iterated.\<close>

definition iter_values :: "pyval \<Rightarrow> py_error + pyval list" where
  "iter_values v =
     (case v of
        PList xs \<Rightarrow> Inr xs
      | PDict kvs \<Rightarrow> Inr (map (\<lambda>kv. PStr (fst kv)) kvs)
      | PStr s \<Rightarrow> Inr (map (\<lambda>c. PStr [c]) s)
      | _ \<Rightarrow> Inl TypeError)"

fun str_join :: "string \<Rightarrow> string list \<Rightarrow> string" where
  "str_join sep [] = []"
| "str_join sep [x] = x"
| "str_join sep (x # xs) = x @ sep @ str_join sep xs"

text \<open>One attribute of the output markup, \<^verbatim>\<open>name="value"\<close>.\<close>

definition attr :: "string \<Rightarrow> string \<Rightarrow> string" where
  \<open>attr name val = name @ ''="'' @ val @ ''"''\<close>

section \<open>Fill, stroke and transform\<close>

definition get_fill_color :: "builtins \<Rightarrow> pyval \<Rightarrow> py_error + string" where
  "get_fill_color B display =
     ebind (dict_get display ''fill'' (PDict [])) (\<lambda>fill.
     ebind (dict_get fill ''visible'' (PBool False)) (\<lambda>vis.
     if \<not> py_truthy vis then Inr ''none''
     else
       ebind (dict_get fill ''color'' (PInt 0)) (\<lambda>color.
       ebind (dict_get fill ''alpha'' (PInt 1)) (\<lambda>alpha.
       ebind (int_color_to_hex B color) (\<lambda>hex_color.
       ebind (py_lt alpha (NInt 1)) (\<lambda>below.
       if below then Inr hex_color else Inr hex_color))))))"

record stroke_props =
  sp_color :: string
  sp_width :: pyval
  sp_alpha :: pyval
  sp_cap :: pyval
  sp_join :: pyval

text \<open>\<open>None\<close> is the \<^verbatim>\<open>None\<close> that the script returns for a stroke that is not visible.\<close>

definition get_stroke_props :: "builtins \<Rightarrow> pyval \<Rightarrow> py_error + stroke_props option" where
  "get_stroke_props B display =
     ebind (dict_get display ''stroke'' (PDict [])) (\<lambda>stroke.
     ebind (dict_get stroke ''visible'' (PBool False)) (\<lambda>vis.
     if \<not> py_truthy vis then Inr None
     else
       ebind (dict_get stroke ''color'' (PInt 0)) (\<lambda>color.
       ebind (dict_get stroke ''alpha'' (PInt 1)) (\<lambda>alpha.
       ebind (dict_get stroke ''width'' (PInt 1)) (\<lambda>width.
       ebind (dict_get stroke ''cap'' (PStr ''butt'')) (\<lambda>cap.
       ebind (dict_get stroke ''join'' (PStr ''miter'')) (\<lambda>join.
       ebind (int_color_to_hex B color) (\<lambda>c.
       Inr (Some \<lparr>sp_color = c, sp_width = width, sp_alpha = alpha,
                   sp_cap = cap, sp_join = join\<rparr>)))))))))"

text \<open>The expression \<^verbatim>\<open>angle * 180 / math.pi\<close>.\<close>

definition to_degrees :: "pyval \<Rightarrow> py_error + pynum" where
  "to_degrees angle = ebind (py_mul angle (NInt 180)) (\<lambda>m. py_truediv m (NFloat math_pi))"

text \<open>Lines 69 to 72. The first assignment to \<^verbatim>\<open>angle_deg\<close> is overwritten by the second,
  but it is evaluated, and it raises when \<^verbatim>\<open>abs(angle)\<close> does.\<close>

definition rotate_part :: "builtins \<Rightarrow> pyval \<Rightarrow> py_error + string" where
  "rotate_part B angle =
     ebind (py_abs angle) (\<lambda>a.
     ebind (if num_gt a (num_mul (NInt 2) (NFloat math_pi))
            then ebind (to_degrees angle) (\<lambda>q. Inr (of_num q))
            else Inr angle) (\<lambda>first_angle_deg.
     ebind (to_degrees angle) (\<lambda>angle_deg.
     Inr (''rotate('' @ py_str B (of_num angle_deg) @ '')''))))"

definition build_transform :: "builtins \<Rightarrow> pyval \<Rightarrow> py_error + string" where
  "build_transform B display =
     ebind (dict_get display ''x'' (PInt 0)) (\<lambda>x.
     ebind (dict_get display ''y'' (PInt 0)) (\<lambda>y.
     ebind (dict_get display ''angle'' (PInt 0)) (\<lambda>angle.
     ebind (dict_get display ''scale'' (PDict [(''x'', PInt 1), (''y'', PInt 1)])) (\<lambda>scale.
     ebind (dict_get scale ''x'' (PInt 1)) (\<lambda>sx.
     ebind (dict_get scale ''y'' (PInt 1)) (\<lambda>sy.
     ebind (if py_ne angle (NInt 0)
            then ebind (rotate_part B angle) (\<lambda>rot.
                   Inr [''translate('' @ py_str B x @ '', '' @ py_str B y @ '')'', rot])
            else Inr [''translate('' @ py_str B x @ '', '' @ py_str B y @ '')'']) (\<lambda>transforms.
     Inr (str_join '' ''
            (if py_ne sx (NInt 1) \<or> py_ne sy (NInt 1)
             then transforms @ [''scale('' @ py_str B sx @ '', '' @ py_str B sy @ '')'']
             else transforms)))))))))"

section \<open>The five shape mappings\<close>

definition stroke_attrs_path :: "builtins \<Rightarrow> stroke_props option \<Rightarrow> py_error + string list" where
  "stroke_attrs_path B stroke =
     (case stroke of
        None \<Rightarrow> Inr [attr ''stroke'' ''none'']
      | Some sp \<Rightarrow>
          ebind (py_lt (sp_alpha sp) (NInt 1)) (\<lambda>below.
          Inr ([attr ''stroke'' (sp_color sp),
                attr ''stroke-width'' (py_str B (sp_width sp)),
                attr ''stroke-linecap'' (py_str B (sp_cap sp)),
                attr ''stroke-linejoin'' (py_str B (sp_join sp))]
               @ (if below then [attr ''stroke-opacity'' (py_str B (sp_alpha sp))] else []))))"

definition render_path :: "builtins \<Rightarrow> pyval \<Rightarrow> py_error + string" where
  "render_path B display =
     ebind (dict_get display ''dPath'' (PStr [])) (\<lambda>dpath.
     if \<not> py_truthy dpath then Inr []
     else
       ebind (build_transform B display) (\<lambda>transform.
       ebind (get_fill_color B display) (\<lambda>fill.
       ebind (get_stroke_props B display) (\<lambda>stroke.
       ebind (dict_get display ''fillRule'' (PStr ''nonzero'')) (\<lambda>fill_rule.
       ebind (stroke_attrs_path B stroke) (\<lambda>stroke_attrs.
       ebind (dict_get display ''fill'' (PDict [])) (\<lambda>fill_obj.
       ebind (dict_get fill_obj ''alpha'' (PInt 1)) (\<lambda>fill_alpha.
       ebind (py_lt fill_alpha (NInt 1)) (\<lambda>below.
       ebind (if below
              then ebind (dict_item fill_obj ''alpha'') (\<lambda>a.
                     Inr [attr ''fill-opacity'' (py_str B a)])
              else Inr []) (\<lambda>opacity_attrs.
       Inr (''<path '' @ attr ''transform'' transform @ '' ''
            @ str_join '' ''
                ([attr ''d'' (py_str B dpath), attr ''fill'' fill]
                 @ (if py_truthy fill_rule then [attr ''fill-rule'' (py_str B fill_rule)]
                    else [])
                 @ stroke_attrs @ opacity_attrs)
            @ '' />'')))))))))))"

definition stroke_attrs_rect :: "builtins \<Rightarrow> stroke_props option \<Rightarrow> string list" where
  "stroke_attrs_rect B stroke =
     (case stroke of
        None \<Rightarrow> [attr ''stroke'' ''none'']
      | Some sp \<Rightarrow> [attr ''stroke'' (sp_color sp),
                    attr ''stroke-width'' (py_str B (sp_width sp))])"

text \<open>The expression \<^verbatim>\<open>-v/2\<close>.\<close>

definition neg_half :: "pyval \<Rightarrow> py_error + pynum" where
  "neg_half v = ebind (py_neg v) (\<lambda>n. num_truediv n (NInt 2))"

definition render_rect :: "builtins \<Rightarrow> pyval \<Rightarrow> py_error + string" where
  "render_rect B display =
     ebind (dict_get display ''width'' (PInt 0)) (\<lambda>w.
     ebind (dict_get display ''height'' (PInt 0)) (\<lambda>h.
     ebind (dict_get display ''radius'' (PInt 0)) (\<lambda>r.
     ebind (build_transform B display) (\<lambda>transform.
     ebind (get_fill_color B display) (\<lambda>fill.
     ebind (get_stroke_props B display) (\<lambda>stroke.
     ebind (neg_half w) (\<lambda>left.
     ebind (neg_half h) (\<lambda>top.
     ebind (py_gt r (NInt 0)) (\<lambda>rounded.
     Inr (''<rect '' @ attr ''transform'' transform @ '' ''
          @ str_join '' ''
              ([attr ''x'' (py_str B (of_num left)) @ '' '' @ attr ''y'' (py_str B (of_num top))
                  @ '' '' @ attr ''width'' (py_str B w) @ '' '' @ attr ''height'' (py_str B h)]
               @ (if rounded
                  then [attr ''rx'' (py_str B r) @ '' '' @ attr ''ry'' (py_str B r)] else [])
               @ [attr ''fill'' fill]
               @ stroke_attrs_rect B stroke)
          @ '' />''))))))))))"

text \<open>Line 144: the stroke that a line gets when it declares none.\<close>

definition default_stroke :: stroke_props where
  "default_stroke = \<lparr>sp_color = ''#000000'', sp_width = PInt 1, sp_alpha = PInt 1,
                      sp_cap = PStr ''butt'', sp_join = PStr ''miter''\<rparr>"

definition render_line :: "builtins \<Rightarrow> pyval \<Rightarrow> py_error + string" where
  "render_line B display =
     ebind (dict_get display ''endPoint'' (PDict [])) (\<lambda>endpoint.
     ebind (dict_get endpoint ''x'' (PInt 0)) (\<lambda>x2.
     ebind (dict_get endpoint ''y'' (PInt 0)) (\<lambda>y2.
     ebind (build_transform B display) (\<lambda>transform.
     ebind (get_stroke_props B display) (\<lambda>stroke.
     let sp = (case stroke of None \<Rightarrow> default_stroke | Some p \<Rightarrow> p) in
     Inr (''<line '' @ attr ''transform'' transform @ '' ''
          @ str_join '' ''
              [attr ''x1'' ''0'' @ '' '' @ attr ''y1'' ''0'' @ '' ''
                 @ attr ''x2'' (py_str B x2) @ '' '' @ attr ''y2'' (py_str B y2),
               attr ''stroke'' (sp_color sp),
               attr ''stroke-width'' (py_str B (sp_width sp))]
          @ '' />''))))))"

definition render_bitmap :: "builtins \<Rightarrow> pyval \<Rightarrow> py_error + string" where
  "render_bitmap B display =
     ebind (dict_get display ''base64'' (PStr [])) (\<lambda>b64.
     if \<not> py_truthy b64 then Inr []
     else
       ebind (dict_get display ''width'' (PInt 0)) (\<lambda>w.
       ebind (dict_get display ''height'' (PInt 0)) (\<lambda>h.
       ebind (build_transform B display) (\<lambda>transform.
       ebind (neg_half w) (\<lambda>left.
       ebind (neg_half h) (\<lambda>top.
       Inr (''<image '' @ attr ''transform'' transform @ '' ''
            @ attr ''x'' (py_str B (of_num left)) @ '' '' @ attr ''y'' (py_str B (of_num top))
            @ '' '' @ attr ''width'' (py_str B w) @ '' '' @ attr ''height'' (py_str B h)
            @ '' '' @ attr ''href'' (py_str B b64) @ '' />'')))))))"

definition render_text :: "builtins \<Rightarrow> pyval \<Rightarrow> py_error + string" where
  "render_text B display =
     ebind (dict_get display ''charJSONs'' (PList [])) (\<lambda>char_jsons.
     ebind (dict_get display ''text'' (PStr [])) (\<lambda>text_content.
     ebind (build_transform B display) (\<lambda>transform.
     ebind (get_fill_color B display) (\<lambda>fill.
     ebind (dict_get display ''style'' (PDict [])) (\<lambda>style.
     ebind (dict_get style ''fontSize'' (PInt 12)) (\<lambda>font_size.
     ebind (dict_get style ''fontFamily'' (PStr ''sans-serif'')) (\<lambda>font_family.
     ebind (dict_get display ''width'' (PInt 0)) (\<lambda>w.
     ebind (dict_get display ''height'' (PInt 0)) (\<lambda>h.
     Inr (''<text '' @ attr ''transform'' transform @ '' ''
          @ str_join '' ''
              [attr ''font-size'' (py_str B font_size),
               attr ''font-family'' (py_str B font_family),
               attr ''fill'' fill]
          @ ''>'' @ py_str B text_content @ ''</text>''))))))))))"

section \<open>Converting a canvas\<close>

text \<open>A \<^verbatim>\<open>for\<close> loop whose body may raise: the state is threaded through the elements, and
  the first exception ends the loop.\<close>

primrec efold :: "('s \<Rightarrow> 'a \<Rightarrow> 'e + 's) \<Rightarrow> 's \<Rightarrow> 'a list \<Rightarrow> 'e + 's" where
  "efold f s [] = Inr s"
| "efold f s (x # xs) = (case f s x of Inl e \<Rightarrow> Inl e | Inr s' \<Rightarrow> efold f s' xs)"

text \<open>The test \<^verbatim>\<open>d.get('visible', True)\<close> of lines 199, 233 and 283.\<close>

definition display_visible :: "pyval \<Rightarrow> py_error + bool" where
  "display_visible d = ebind (dict_get d ''visible'' (PBool True)) (\<lambda>v. Inr (py_truthy v))"

subsection \<open>The bounding box, lines 192 to 217\<close>

record bbox =
  min_x :: pynum
  min_y :: pynum
  max_x :: pynum
  max_y :: pynum

definition init_bbox :: bbox where
  "init_bbox = \<lparr>min_x = NFloat PosInf, min_y = NFloat PosInf,
                 max_x = NFloat NegInf, max_y = NFloat NegInf\<rparr>"

text \<open>\<^verbatim>\<open>abs(d.get('scale', {}).get(k, 1))\<close>.\<close>

definition abs_scale :: "pyval \<Rightarrow> string \<Rightarrow> py_error + pynum" where
  "abs_scale d k =
     ebind (dict_get d ''scale'' (PDict [])) (\<lambda>scale.
     ebind (dict_get scale k (PInt 1)) py_abs)"

text \<open>\<^verbatim>\<open>w * sx / 2 + 1\<close>.\<close>

definition half_extent :: "pyval \<Rightarrow> pynum \<Rightarrow> py_error + pynum" where
  "half_extent w sx =
     ebind (py_mul w sx) (\<lambda>m.
     ebind (py_truediv m (NInt 2)) (\<lambda>q.
     Inr (num_add q (NInt 1))))"

definition bbox_step :: "bbox \<Rightarrow> pyval \<Rightarrow> py_error + bbox" where
  "bbox_step bb d =
     ebind (display_visible d) (\<lambda>vis.
     if \<not> vis then Inr bb
     else
       ebind (dict_get d ''x'' (PInt 0)) (\<lambda>x.
       ebind (dict_get d ''y'' (PInt 0)) (\<lambda>y.
       ebind (dict_get d ''width'' (PInt 0)) (\<lambda>w.
       ebind (dict_get d ''height'' (PInt 0)) (\<lambda>h.
       ebind (abs_scale d ''x'') (\<lambda>sx.
       ebind (abs_scale d ''y'') (\<lambda>sy.
       ebind (half_extent w sx) (\<lambda>half_w.
       ebind (half_extent h sy) (\<lambda>half_h.
       ebind (py_sub x half_w) (\<lambda>x_lo.
       ebind (py_sub y half_h) (\<lambda>y_lo.
       ebind (py_add x half_w) (\<lambda>x_hi.
       ebind (py_add y half_h) (\<lambda>y_hi.
       Inr \<lparr>min_x = py_min (min_x bb) x_lo, min_y = py_min (min_y bb) y_lo,
            max_x = py_max (max_x bb) x_hi, max_y = py_max (max_y bb) y_hi\<rparr>)))))))))))))"

text \<open>Lines 219 to 223: the padding.\<close>

definition pad_bbox :: "bbox \<Rightarrow> bbox" where
  "pad_bbox bb = \<lparr>min_x = num_sub (min_x bb) (NInt 2), min_y = num_sub (min_y bb) (NInt 2),
                   max_x = num_add (max_x bb) (NInt 2), max_y = num_add (max_y bb) (NInt 2)\<rparr>"

text \<open>Lines 193 to 223 on the elements of \<^verbatim>\<open>displays\<close>: \<open>None\<close> is the early
  \<^verbatim>\<open>return None\<close> of line 217.\<close>

definition canvas_bbox :: "pyval list \<Rightarrow> py_error + bbox option" where
  "canvas_bbox ds =
     ebind (efold bbox_step init_bbox ds) (\<lambda>bb.
     if num_eq (min_x bb) (NFloat PosInf) then Inr None else Inr (Some (pad_bbox bb)))"

subsection \<open>The order of drawing, line 229\<close>

definition zorder_key :: "pyval \<Rightarrow> py_error + pyval" where
  "zorder_key d = dict_get d ''zOrder'' (PInt 0)"

text \<open>\<^verbatim>\<open>sorted\<close> first computes the key of every element, in order.\<close>

definition with_keys :: "pyval list \<Rightarrow> py_error + (pyval \<times> pyval) list" where
  "with_keys ds = efold (\<lambda>acc d. ebind (zorder_key d) (\<lambda>k. Inr (acc @ [(k, d)]))) [] ds"

text \<open>
  \<^verbatim>\<open>sorted\<close> is stable and compares keys with \<^verbatim>\<open><\<close> only. Where the keys are numbers other
  than NaN, \<^verbatim>\<open><\<close> orders them, and the result of every stable sort is the same: the one of
  the insertion sort below, which puts an element behind all those that are not greater.
  For any other keys the result (or the exception) is the parameter \<open>py_sorted_other\<close>.
\<close>

definition sortable_key :: "pyval \<Rightarrow> bool" where
  "sortable_key k = (case as_num k of None \<Rightarrow> False | Some n \<Rightarrow> n \<noteq> NFloat NaN)"

definition key_lt :: "pyval \<Rightarrow> pyval \<Rightarrow> bool" where
  "key_lt a b = (case (as_num a, as_num b) of (Some x, Some y) \<Rightarrow> num_lt x y | _ \<Rightarrow> False)"

fun insort_lt :: "(pyval \<times> 'a) \<Rightarrow> (pyval \<times> 'a) list \<Rightarrow> (pyval \<times> 'a) list" where
  "insort_lt x [] = [x]"
| "insort_lt x (y # ys) = (if key_lt (fst x) (fst y) then x # y # ys else y # insort_lt x ys)"

definition py_sorted :: "builtins \<Rightarrow> (pyval \<times> pyval) list \<Rightarrow> py_error + pyval list" where
  "py_sorted B kds =
     (if list_all (\<lambda>kd. sortable_key (fst kd)) kds
      then Inr (map snd (foldl (\<lambda>acc kd. insort_lt kd acc) [] kds))
      else py_sorted_other B kds)"

definition sorted_displays :: "builtins \<Rightarrow> pyval list \<Rightarrow> py_error + pyval list" where
  "sorted_displays B ds = ebind (with_keys ds) (py_sorted B)"

subsection \<open>Mapping the shapes, lines 231 to 253\<close>

text \<open>The dispatch on the kind; \<open>None\<close> is the \<^verbatim>\<open>continue\<close> of line 249.\<close>

definition render_display :: "builtins \<Rightarrow> pyval \<Rightarrow> pyval \<Rightarrow> py_error + string option" where
  "render_display B d dtype =
     (if dtype = PStr ''PATH'' then ebind (render_path B d) (\<lambda>el. Inr (Some el))
      else if dtype = PStr ''RECT'' then ebind (render_rect B d) (\<lambda>el. Inr (Some el))
      else if dtype = PStr ''LINE'' then ebind (render_line B d) (\<lambda>el. Inr (Some el))
      else if dtype = PStr ''BITMAP'' then ebind (render_bitmap B d) (\<lambda>el. Inr (Some el))
      else if dtype = PStr ''TEXT'' then ebind (render_text B d) (\<lambda>el. Inr (Some el))
      else Inr None)"

text \<open>A warning printed to the error stream: the kind of the shape and the exception.\<close>

type_synonym warning = "pyval \<times> py_error"

text \<open>The body of the loop. The state is the list \<^verbatim>\<open>elements\<close> and what has been printed.
  The two \<^verbatim>\<open>d.get\<close> stand outside the \<^verbatim>\<open>try\<close>; what the \<^verbatim>\<open>try\<close> encloses is
  \<open>render_display\<close> and the \<^verbatim>\<open>append\<close>.\<close>

definition render_step ::
  "builtins \<Rightarrow> string list \<times> warning list \<Rightarrow> pyval \<Rightarrow> py_error + string list \<times> warning list"
where
  "render_step B st d =
     ebind (display_visible d) (\<lambda>vis.
     if \<not> vis then Inr st
     else
       ebind (dict_get d ''type'' (PStr [])) (\<lambda>dtype.
       (case render_display B d dtype of
          Inl e \<Rightarrow> Inr (fst st, snd st @ [(dtype, e)])
        | Inr None \<Rightarrow> Inr st
        | Inr (Some el) \<Rightarrow> Inr (if el \<noteq> [] then fst st @ [el] else fst st, snd st))))"

definition render_loop ::
  "builtins \<Rightarrow> pyval list \<Rightarrow> py_error + string list \<times> warning list" where
  "render_loop B ds = efold (render_step B) ([], []) ds"

subsection \<open>The document, lines 259 to 271\<close>

definition svg_document ::
  "builtins \<Rightarrow> bbox \<Rightarrow> int \<Rightarrow> pyval \<Rightarrow> string list \<Rightarrow> string" where
  \<open>svg_document B bb canvas_index title elements =
     (let vw = num_sub (max_x bb) (min_x bb);
          vh = num_sub (max_y bb) (min_y bb)
      in ''<?xml version="1.0" encoding="UTF-8"?>'' @ [CHR 0x0A]
         @ ''<svg xmlns="http://www.w3.org/2000/svg" xmlns:xlink="http://www.w3.org/1999/xlink"''
         @ [CHR 0x0A]
         @ ''     viewBox="'' @ py_str B (of_num (min_x bb)) @ '' '' @ py_str B (of_num (min_y bb))
         @ '' '' @ py_str B (of_num vw) @ '' '' @ py_str B (of_num vh) @ ''"'' @ [CHR 0x0A]
         @ ''     width="'' @ py_str B (of_num vw) @ ''mm" height="'' @ py_str B (of_num vh)
         @ ''mm">'' @ [CHR 0x0A]
         @ ''  <title>Canvas '' @ str_of_int canvas_index @ '': '' @ py_str B title @ ''</title>''
         @ [CHR 0x0A]
         @ concat (map (\<lambda>el. ''  '' @ el @ [CHR 0x0A]) elements)
         @ ''</svg>'' @ [CHR 0x0A])\<close>

text \<open>
  The result is the exception that leaves the function, or the returned value (\<open>None\<close>
  for \<^verbatim>\<open>return None\<close>) together with the warnings printed on the way.
\<close>

definition convert_canvas_to_svg ::
  "builtins \<Rightarrow> pyval \<Rightarrow> int \<Rightarrow> py_error + string option \<times> warning list" where
  "convert_canvas_to_svg B canvas canvas_index =
     ebind (dict_get canvas ''displays'' (PList [])) (\<lambda>displays.
     if \<not> py_truthy displays then Inr (None, [])
     else
       ebind (iter_values displays) (\<lambda>ds.
       ebind (canvas_bbox ds) (\<lambda>box.
       (case box of
          None \<Rightarrow> Inr (None, [])
        | Some bb \<Rightarrow>
            ebind (sorted_displays B ds) (\<lambda>sorted_ds.
            ebind (render_loop B sorted_ds) (\<lambda>st.
            if fst st = [] then Inr (None, snd st)
            else
              ebind (dict_get canvas ''title'' (PStr ''untitled'')) (\<lambda>title.
              Inr (Some (svg_document B bb canvas_index title (fst st)), snd st))))))))"

subsection \<open>Line 283 of \<^verbatim>\<open>main\<close>: the count of visible displays\<close>


section \<open>Vocabulary of the statements\<close>

text \<open>A value is a finite number: an integer, a boolean or a finite float.\<close>

definition finite_value :: "pyval \<Rightarrow> rat option" where
  "finite_value v =
     (case as_num v of
        None \<Rightarrow> None
      | Some n \<Rightarrow> (case num_float n of Fin r \<Rightarrow> Some r | _ \<Rightarrow> None))"

fun is_dict :: "pyval \<Rightarrow> bool" where
  "is_dict (PDict kvs) = True"
| "is_dict _ = False"

text \<open>The stacking order of a display whose \<^verbatim>\<open>zOrder\<close> is an integer or is not set.\<close>

definition zorder_int :: "pyval \<Rightarrow> int option" where
  "zorder_int d =
     (case d of
        PDict kvs \<Rightarrow> (case lookup_default kvs ''zOrder'' (PInt 0) of PInt n \<Rightarrow> Some n | _ \<Rightarrow> None)
      | _ \<Rightarrow> None)"

definition zorder_of :: "pyval \<Rightarrow> int" where
  "zorder_of d = (case zorder_int d of Some n \<Rightarrow> n | None \<Rightarrow> 0)"

text \<open>What the loop of lines 232 to 253 makes of one visible display: an element, nothing,
  or a warning.\<close>

definition shape_outcome :: "builtins \<Rightarrow> pyval \<Rightarrow> py_error + string option" where
  "shape_outcome B d = ebind (dict_get d ''type'' (PStr [])) (render_display B d)"

definition shape_elements :: "builtins \<Rightarrow> pyval \<Rightarrow> string list" where
  "shape_elements B d =
     (case shape_outcome B d of Inr (Some el) \<Rightarrow> (if el \<noteq> [] then [el] else []) | _ \<Rightarrow> [])"

definition shape_warnings :: "builtins \<Rightarrow> pyval \<Rightarrow> warning list" where
  "shape_warnings B d =
     (case shape_outcome B d of
        Inl e \<Rightarrow> [(lookup_default (case d of PDict kvs \<Rightarrow> kvs | _ \<Rightarrow> []) ''type'' (PStr []), e)]
      | _ \<Rightarrow> [])"

definition shown :: "pyval \<Rightarrow> bool" where
  "shown d = (display_visible d = Inr True)"

text \<open>
  The six numbers of a display that the bounding box reads, where they are all finite:
  \<open>(x, y, width, height, sx, sy)\<close>; and the bounds \<open>x \<plusminus> (width * |sx| / 2 + 1)\<close>,
  \<open>y \<plusminus> (height * |sy| / 2 + 1)\<close> of the display.
\<close>

definition geometry :: "pyval \<Rightarrow> (rat \<times> rat \<times> rat \<times> rat \<times> rat \<times> rat) option" where
  "geometry d =
     (case d of
        PDict kvs \<Rightarrow>
          (case lookup_default kvs ''scale'' (PDict []) of
             PDict sc \<Rightarrow>
               (case (finite_value (lookup_default kvs ''x'' (PInt 0)),
                      finite_value (lookup_default kvs ''y'' (PInt 0)),
                      finite_value (lookup_default kvs ''width'' (PInt 0)),
                      finite_value (lookup_default kvs ''height'' (PInt 0)),
                      finite_value (lookup_default sc ''x'' (PInt 1)),
                      finite_value (lookup_default sc ''y'' (PInt 1))) of
                  (Some x, Some y, Some w, Some h, Some sx, Some sy) \<Rightarrow> Some (x, y, w, h, sx, sy)
                | _ \<Rightarrow> None)
           | _ \<Rightarrow> None)
      | _ \<Rightarrow> None)"

definition x_lo :: "pyval \<Rightarrow> rat" where
  "x_lo d = (case geometry d of Some (x, y, w, h, sx, sy) \<Rightarrow> x - (w * \<bar>sx\<bar> / 2 + 1) | None \<Rightarrow> 0)"

definition x_hi :: "pyval \<Rightarrow> rat" where
  "x_hi d = (case geometry d of Some (x, y, w, h, sx, sy) \<Rightarrow> x + (w * \<bar>sx\<bar> / 2 + 1) | None \<Rightarrow> 0)"

definition y_lo :: "pyval \<Rightarrow> rat" where
  "y_lo d = (case geometry d of Some (x, y, w, h, sx, sy) \<Rightarrow> y - (h * \<bar>sy\<bar> / 2 + 1) | None \<Rightarrow> 0)"

definition y_hi :: "pyval \<Rightarrow> rat" where
  "y_hi d = (case geometry d of Some (x, y, w, h, sx, sy) \<Rightarrow> y + (h * \<bar>sy\<bar> / 2 + 1) | None \<Rightarrow> 0)"

subsection \<open>An instance of the built-ins, for the examples\<close>

text \<open>
  \<^verbatim>\<open>int(s)\<close> on an optional minus sign and decimal digits; \<^verbatim>\<open>str\<close> of a float whose
  value is a whole number below \<open>10\<^sup>1\<^sup>6\<close>, or such a number and a half, as Python prints it
  (any other value is left as a question mark); \<^verbatim>\<open>sorted\<close> raising on keys that are not
  numbers.
\<close>

definition dec_digit_val :: "char \<Rightarrow> int option" where
  "dec_digit_val c =
     (let k = of_char c :: nat in if 48 \<le> k \<and> k \<le> 57 then Some (int k - 48) else None)"

fun parse_dec_from :: "int \<Rightarrow> string \<Rightarrow> int option" where
  "parse_dec_from acc [] = Some acc"
| "parse_dec_from acc (c # cs) =
     (case dec_digit_val c of None \<Rightarrow> None | Some d \<Rightarrow> parse_dec_from (acc * 10 + d) cs)"

definition demo_int_of_str :: "string \<Rightarrow> int option" where
  "demo_int_of_str s =
     (case s of
        [] \<Rightarrow> None
      | c # cs \<Rightarrow>
          (if c = CHR ''-'' then (if cs = [] then None else map_option uminus (parse_dec_from 0 cs))
           else parse_dec_from 0 s))"

definition demo_str_of :: "pyval \<Rightarrow> string" where
  "demo_str_of v =
     (case v of
        PFloat (Fin r) \<Rightarrow>
          (if r = of_int \<lfloor>r\<rfloor> then str_of_int \<lfloor>r\<rfloor> @ ''.0''
           else if 2 * r = of_int \<lfloor>2 * r\<rfloor>
           then (if r < 0 then ''-'' else []) @ str_of_int \<lfloor>\<bar>r\<bar>\<rfloor> @ ''.5''
           else ''?'')
      | PFloat PosInf \<Rightarrow> ''inf''
      | PFloat NegInf \<Rightarrow> ''-inf''
      | PFloat NaN \<Rightarrow> ''nan''
      | _ \<Rightarrow> ''?'')"

definition demo_builtins :: builtins where
  "demo_builtins = \<lparr>py_int_of_str = demo_int_of_str, py_str_of = demo_str_of,
                     py_sorted_other = (\<lambda>kds. Inl TypeError)\<rparr>"

section \<open>Example documents\<close>


definition line_example :: "(string \<times> pyval) list" where
  "line_example = [(''type'', PStr ''LINE''), (''x'', PInt 1), (''y'', PInt 2),
                   (''endPoint'', PDict [(''x'', PInt 30), (''y'', PInt 40)]),
                   (''stroke'', PDict [(''visible'', PBool False), (''color'', PInt 255)])]"



definition bad_rect :: pyval where
  "bad_rect = PDict [(''type'', PStr ''RECT''), (''radius'', PStr ''abc''), (''width'', PInt 4),
                     (''height'', PInt 2)]"

definition unknown_shape :: pyval where
  "unknown_shape = PDict [(''type'', PStr ''CIRCLE'')]"

definition plain_line :: pyval where
  "plain_line = PDict [(''type'', PStr ''LINE''),
                       (''endPoint'', PDict [(''x'', PInt 3), (''y'', PInt 4)])]"

definition mixed_displays :: "pyval list" where
  "mixed_displays = [bad_rect, unknown_shape, plain_line]"

definition mixed_canvas :: pyval where
  "mixed_canvas = PDict [(''title'', PStr ''demo''), (''displays'', PList mixed_displays)]"

definition hidden_canvas :: pyval where
  "hidden_canvas = PDict [(''displays'', PList
     [PDict [(''type'', PStr ''RECT''), (''visible'', PBool False), (''width'', PInt 4)],
      PDict [(''type'', PStr ''LINE''), (''visible'', PBool False)]])]"

definition empty_output_canvas :: pyval where
  "empty_output_canvas = PDict [(''displays'', PList
     [PDict [(''type'', PStr ''BITMAP''), (''base64'', PStr [])],
      PDict [(''type'', PStr ''PATH'')]])]"




section \<open>Basic facts\<close>

lemma ebind_Inr [simp]: "ebind (Inr v) f = f v"
  by (simp add: ebind_def)

lemma ebind_Inl [simp]: "ebind (Inl e) f = Inl e"
  by (simp add: ebind_def)

lemma dict_get_PDict [simp]: "dict_get (PDict kvs) k dflt = Inr (lookup_default kvs k dflt)"
  by (simp add: dict_get_def)

lemma demo_sel:
  "py_str_of demo_builtins = demo_str_of"
  "py_int_of_str demo_builtins = demo_int_of_str"
  "py_sorted_other demo_builtins = (\<lambda>kds. Inl TypeError)"
  by (simp_all add: demo_builtins_def)

lemmas eval_simps = str_of_int_def dec_of_nat.simps hex_digit_def lookup_default_def
  demo_sel demo_str_of_def attr_def py_ne_def

section \<open>Colors\<close>

lemma lt16_cases: "d < 16 \<Longrightarrow> d \<in> {0,1,2,3,4,5,6,7,8,9,10,11,12,13,14,15::nat}"
  by (simp; arith)

lemma hex_digit_val_hex_digit: "d < 16 \<Longrightarrow> hex_digit_val (hex_digit d) = Some (int d)"
  using lt16_cases[of d] by (auto simp: hex_digit_val_def hex_digit_def)

lemma format_02x_byte:
  assumes "0 \<le> n" "n < 256"
  shows "format_02x n = [hex_digit (nat n div 16), hex_digit (nat n mod 16)]"
proof (cases "nat n < 16")
  case True
  then show ?thesis using assms
    by (simp add: format_02x_def hex_of_nat.simps[of "nat n"] zero_pad_def hex_digit_def)
next
  case False
  then have "nat n div 16 < 16" using assms by auto
  then show ?thesis using assms False
    by (simp add: format_02x_def hex_of_nat.simps[of "nat n"] hex_of_nat.simps[of "nat n div 16"]
        zero_pad_def)
qed

lemma and_255: "(x::int) AND 255 = x mod 256"
proof -
  have "(255::int) = mask 8" by (simp add: mask_eq_exp_minus_1)
  then have "x AND 255 = take_bit 8 x" by (simp only: take_bit_eq_mask)
  then show ?thesis by (simp add: take_bit_eq_mod)
qed

lemma rgb_hex_bytes:
  "rgb_hex c = CHR ''#'' # format_02x (c div 65536 mod 256) @ format_02x (c div 256 mod 256)
     @ format_02x (c mod 256)"
  by (simp add: rgb_hex_def and_255 drop_bit_eq_div)

lemma format_02x_digits:
  assumes "0 \<le> n" "n < 256" "ch \<in> set (format_02x n)"
  shows "hex_digit_val ch \<noteq> None"
proof -
  have a: "nat n div 16 < 16" and b: "nat n mod 16 < 16" using assms by auto
  from assms have "ch = hex_digit (nat n div 16) \<or> ch = hex_digit (nat n mod 16)"
    by (simp add: format_02x_byte)
  then show ?thesis
    using hex_digit_val_hex_digit[OF a] hex_digit_val_hex_digit[OF b] by auto
qed

lemma parse_two:
  assumes "0 \<le> n" "n < 256"
  shows "parse_hex_from acc (format_02x n @ rest) = parse_hex_from (acc * 256 + n) rest"
proof -
  have a: "nat n div 16 < 16" and b: "nat n mod 16 < 16" using assms by auto
  have "int (nat n div 16) * 16 + int (nat n mod 16) = n"
    using assms by (simp add: zdiv_int zmod_int)
  then have eq: "(acc * 16 + int (nat n div 16)) * 16 + int (nat n mod 16) = acc * 256 + n"
    by (simp add: algebra_simps)
  have "parse_hex_from acc (format_02x n @ rest)
          = parse_hex_from ((acc * 16 + int (nat n div 16)) * 16 + int (nat n mod 16)) rest"
    by (simp add: format_02x_byte[OF assms] hex_digit_val_hex_digit[OF a]
        hex_digit_val_hex_digit[OF b])
  with eq show ?thesis by (simp only:)
qed

text \<open>
  C1. For every integer color \<open>c\<close> with \<open>0 \<le> c \<le> 0xFFFFFF\<close>, \<open>int_color_to_hex\<close> returns
  \<^verbatim>\<open>#\<close> followed by six hex digits, and reading the six digits in base 16 gives \<open>c\<close> back.
\<close>

theorem int_color_round_trip:
  assumes "0 \<le> c" "c \<le> 16777215"
  shows "\<exists>ds. int_color_to_hex B (PInt c) = Inr (CHR ''#'' # ds) \<and> length ds = 6
           \<and> (\<forall>ch \<in> set ds. hex_digit_val ch \<noteq> None) \<and> parse_hex ds = Some c"
proof -
  define r g b where "r = c div 65536 mod 256" and "g = c div 256 mod 256" and "b = c mod 256"
  have rng: "0 \<le> r" "r < 256" "0 \<le> g" "g < 256" "0 \<le> b" "b < 256"
    by (simp_all add: r_def g_def b_def)
  define ds where "ds = format_02x r @ format_02x g @ format_02x b"
  have res: "int_color_to_hex B (PInt c) = Inr (CHR ''#'' # ds)"
    by (simp add: int_color_to_hex_def color_of_value_def rgb_hex_bytes ds_def r_def g_def b_def)
  have len: "length ds = 6"
    by (simp add: ds_def format_02x_byte rng)
  have digs: "\<forall>ch \<in> set ds. hex_digit_val ch \<noteq> None"
    using rng format_02x_digits by (auto simp: ds_def)
  have "c div 65536 < 256" using assms by simp
  then have "r = c div 65536" using assms by (simp add: r_def)
  moreover have "c div 256 div 256 = c div 65536"
    by (simp add: div_mult2_eq [symmetric])
  moreover have "c div 256 = 256 * (c div 256 div 256) + g"
    unfolding g_def by (simp only: mult_div_mod_eq)
  moreover have "c = 256 * (c div 256) + b"
    unfolding b_def by (simp only: mult_div_mod_eq)
  moreover have "\<And>q q2 q3 :: int. r = q3 \<Longrightarrow> q2 = q3 \<Longrightarrow> q = 256 * q2 + g
       \<Longrightarrow> c = 256 * q + b \<Longrightarrow> (r * 256 + g) * 256 + b = c"
    by simp
  ultimately have "(r * 256 + g) * 256 + b = c"
    by blast
  moreover have "parse_hex_from 0 ds = Some ((r * 256 + g) * 256 + b)"
    using parse_two[OF rng(1,2), of 0 "format_02x g @ format_02x b"]
          parse_two[OF rng(3,4), of r "format_02x b"]
          parse_two[OF rng(5,6), of "r * 256 + g" "[]"]
    by (simp add: ds_def)
  ultimately have "parse_hex ds = Some c"
    using len by (auto simp: parse_hex_def)
  with res len digs show ?thesis by blast
qed

theorem int_color_round_trip_witness:
  "(0::int) \<le> 16421416 \<and> (16421416::int) \<le> 16777215
   \<and> int_color_to_hex demo_builtins (PInt 16421416) = Inr ''#fa9228''
   \<and> parse_hex ''fa9228'' = Some 16421416"
proof -
  have fmt: "int_color_to_hex demo_builtins (PInt 16421416) = Inr ''#fa9228''"
    by (simp add: int_color_to_hex_def color_of_value_def rgb_hex_bytes format_02x_byte
        hex_digit_def)
  from int_color_round_trip[of 16421416 demo_builtins] obtain ds where
    "int_color_to_hex demo_builtins (PInt 16421416) = Inr (CHR ''#'' # ds)"
    "parse_hex ds = Some 16421416"
    by auto
  with fmt show ?thesis by simp
qed

section \<open>Transform composition\<close>









section \<open>Rectangles and lines\<close>









lemma get_stroke_props_hidden:
  assumes "map_of kvs ''stroke'' = None
           \<or> (\<exists>st. map_of kvs ''stroke'' = Some (PDict st)
                   \<and> \<not> py_truthy (lookup_default st ''visible'' (PBool False)))"
  shows "get_stroke_props B (PDict kvs) = Inr None"
  using assms
  by (auto simp: get_stroke_props_def lookup_default_def)

lemma str_of_int_small: "str_of_int 0 = ''0''" "str_of_int 1 = ''1''"
  by (simp_all add: str_of_int_def dec_of_nat.simps hex_digit_def)

text \<open>
  C4. For a line display whose stroke is absent or not visible (and whose transform
  resolves), the line is emitted, not empty, from \<open>(0, 0)\<close> to the end point, with the
  stroke \<^verbatim>\<open>#000000\<close> of width 1.
\<close>

theorem render_line_default_stroke:
  assumes "build_transform B (PDict kvs) = Inr transform"
      and "lookup_default kvs ''endPoint'' (PDict []) = PDict ep"
      and "map_of kvs ''stroke'' = None
           \<or> (\<exists>st. map_of kvs ''stroke'' = Some (PDict st)
                   \<and> \<not> py_truthy (lookup_default st ''visible'' (PBool False)))"
  shows "render_line B (PDict kvs) =
           Inr (''<line '' @ attr ''transform'' transform
                @ '' '' @ attr ''x1'' ''0'' @ '' '' @ attr ''y1'' ''0''
                @ '' '' @ attr ''x2'' (py_str B (lookup_default ep ''x'' (PInt 0)))
                @ '' '' @ attr ''y2'' (py_str B (lookup_default ep ''y'' (PInt 0)))
                @ '' '' @ attr ''stroke'' ''#000000''
                @ '' '' @ attr ''stroke-width'' ''1''
                @ '' />'')
         \<and> render_line B (PDict kvs) \<noteq> Inr []"
  using assms(1,2) get_stroke_props_hidden[OF assms(3), of B]
  by (simp add: render_line_def default_stroke_def str_of_int_small)

theorem render_line_default_stroke_witness:
  \<open>render_line demo_builtins (PDict line_example)
     = Inr ''<line transform="translate(1, 2)" x1="0" y1="0" x2="30" y2="40" stroke="#000000" stroke-width="1" />''\<close>
proof -
  have bt: "build_transform demo_builtins (PDict line_example) = Inr ''translate(1, 2)''"
    by (simp add: build_transform_def line_example_def eval_simps)
  have ep: "lookup_default line_example ''endPoint'' (PDict [])
              = PDict [(''x'', PInt 30), (''y'', PInt 40)]"
    by (simp add: line_example_def lookup_default_def)
  have st: "map_of line_example ''stroke'' = None
           \<or> (\<exists>st. map_of line_example ''stroke'' = Some (PDict st)
                   \<and> \<not> py_truthy (lookup_default st ''visible'' (PBool False)))"
    by (simp add: line_example_def lookup_default_def)
  show ?thesis
    using render_line_default_stroke[OF bt ep st]
    by (simp add: eval_simps)
qed

section \<open>Color resolution on any value\<close>

text \<open>
  C8. Color resolution is not total: on the floats \<^verbatim>\<open>inf\<close>, \<^verbatim>\<open>-inf\<close> and \<^verbatim>\<open>nan\<close>, which
  \<^verbatim>\<open>json.load\<close> delivers for \<^verbatim>\<open>Infinity\<close>, \<^verbatim>\<open>1e999\<close> and \<^verbatim>\<open>NaN\<close>, the conversion
  \<^verbatim>\<open>int(color_val)\<close> of line 19 raises, outside the \<^verbatim>\<open>try\<close> of lines 14 to 17.
\<close>

theorem int_color_to_hex_raises:
  "int_color_to_hex B (PFloat PosInf) = Inl OverflowError
   \<and> int_color_to_hex B (PFloat NegInf) = Inl OverflowError
   \<and> int_color_to_hex B (PFloat NaN) = Inl ValueError"
  by (simp add: int_color_to_hex_def color_of_value_def)

text \<open>The other parts of the description of color resolution hold.\<close>

lemma int_color_to_hex_hash:
  "int_color_to_hex B (PStr (CHR ''#'' # s)) = Inr (CHR ''#'' # s)"
  by (simp add: int_color_to_hex_def)

lemma int_color_to_hex_numeric_string:
  "take 1 s \<noteq> ''#'' \<Longrightarrow> py_int_of_str B s = Some n
   \<Longrightarrow> int_color_to_hex B (PStr s) = int_color_to_hex B (PInt n)"
  by (simp add: int_color_to_hex_def)

lemma int_color_to_hex_other_string:
  "take 1 s \<noteq> ''#'' \<Longrightarrow> py_int_of_str B s = None \<Longrightarrow> int_color_to_hex B (PStr s) = Inr s"
  by (simp add: int_color_to_hex_def)

lemma int_color_to_hex_default:
  "v = PNone \<or> v = PList xs \<or> v = PDict kvs \<Longrightarrow> int_color_to_hex B v = Inr ''#000000''"
  by (auto simp: int_color_to_hex_def color_of_value_def)

lemma int_color_to_hex_returns:
  assumes "v \<noteq> PFloat PosInf" "v \<noteq> PFloat NegInf" "v \<noteq> PFloat NaN"
  shows "\<exists>s. int_color_to_hex B v = Inr s"
proof (cases v)
  case (PFloat f)
  with assms show ?thesis
    by (cases f) (simp_all add: int_color_to_hex_def color_of_value_def)
qed (auto simp: int_color_to_hex_def color_of_value_def split: option.splits)

section \<open>The loop over the shapes\<close>

lemma display_visible_PDict [simp]:
  "display_visible (PDict kvs) = Inr (py_truthy (lookup_default kvs ''visible'' (PBool True)))"
  by (simp add: display_visible_def)

lemma shown_PDict: "shown (PDict kvs) = py_truthy (lookup_default kvs ''visible'' (PBool True))"
  by (simp add: shown_def)

lemma render_step_dict:
  "render_step B (els, ws) (PDict kvs) =
     Inr (if shown (PDict kvs)
          then (els @ shape_elements B (PDict kvs), ws @ shape_warnings B (PDict kvs))
          else (els, ws))"
  by (simp add: render_step_def shown_PDict shape_elements_def shape_warnings_def
      shape_outcome_def split: sum.splits option.splits)

lemma efold_render_step:
  "list_all is_dict ds \<Longrightarrow>
   efold (render_step B) (els, ws) ds =
     Inr (els @ concat (map (shape_elements B) (filter shown ds)),
          ws @ concat (map (shape_warnings B) (filter shown ds)))"
proof (induction ds arbitrary: els ws)
  case Nil
  then show ?case by simp
next
  case (Cons d ds)
  then obtain kvs where d: "d = PDict kvs" by (cases d) auto
  from Cons.prems have "list_all is_dict ds" by simp
  then show ?case
    using Cons.IH by (simp add: d render_step_dict)
qed

lemma render_display_other:
  assumes "dtype \<noteq> PStr ''PATH''" "dtype \<noteq> PStr ''RECT''" "dtype \<noteq> PStr ''LINE''"
    "dtype \<noteq> PStr ''BITMAP''" "dtype \<noteq> PStr ''TEXT''"
  shows "render_display B d dtype = Inr None"
  using assms by (simp add: render_display_def)

lemma bbox_step_not_dict: "\<not> is_dict d \<Longrightarrow> bbox_step bb d = Inl AttributeError"
  by (cases d) (simp_all add: bbox_step_def display_visible_def dict_get_def)

lemma efold_bbox_dicts: "efold bbox_step bb ds = Inr bb' \<Longrightarrow> list_all is_dict ds"
proof (induction ds arbitrary: bb)
  case Nil
  then show ?case by simp
next
  case (Cons d ds)
  show ?case
  proof (cases "is_dict d")
    case True
    with Cons show ?thesis by (auto split: sum.splits)
  next
    case False
    with Cons.prems show ?thesis by (simp add: bbox_step_not_dict)
  qed
qed

lemma canvas_bbox_dicts: "canvas_bbox ds = Inr box \<Longrightarrow> list_all is_dict ds"
  by (auto simp: canvas_bbox_def ebind_def split: sum.splits dest: efold_bbox_dicts)

section \<open>The order of drawing\<close>

lemma key_lt_ints [simp]: "key_lt (PInt a) (PInt b) = (a < b)"
  by (simp add: key_lt_def)

lemma mset_insort_lt: "mset (insort_lt x ys) = add_mset x (mset ys)"
  by (induction ys) auto

lemma set_insort_lt: "set (insort_lt x ys) = insert x (set ys)"
  by (induction ys) auto

lemma sorted_insort_lt:
  assumes "fst x = PInt (z (snd x))" "\<forall>p \<in> set ys. fst p = PInt (z (snd p))"
    and "sorted (map (\<lambda>p. z (snd p)) ys)"
  shows "sorted (map (\<lambda>p. z (snd p)) (insort_lt x ys))"
  using assms by (induction ys) (auto simp: set_insort_lt)

lemma filter_insort_lt:
  assumes "fst x = PInt (z (snd x))" "\<forall>p \<in> set ys. fst p = PInt (z (snd p))"
    and "sorted (map (\<lambda>p. z (snd p)) ys)"
  shows "filter (\<lambda>p. z (snd p) = k) (insort_lt x ys)
         = filter (\<lambda>p. z (snd p) = k) ys @ (if z (snd x) = k then [x] else [])"
  using assms
proof (induction ys)
  case Nil
  then show ?case by simp
next
  case (Cons y ys)
  show ?case
  proof (cases "z (snd x) < z (snd y)")
    case True
    have "\<forall>p \<in> set (y # ys). z (snd x) < z (snd p)"
      using Cons.prems(3) True by auto
    then have "z (snd x) = k \<Longrightarrow> filter (\<lambda>p. z (snd p) = k) (y # ys) = []"
      by (auto simp: filter_empty_conv)
    with True Cons.prems show ?thesis by auto
  next
    case False
    with Cons show ?thesis by auto
  qed
qed

lemma foldl_insort_lt:
  assumes "\<forall>p \<in> set acc. fst p = PInt (z (snd p))" "\<forall>p \<in> set xs. fst p = PInt (z (snd p))"
    and "sorted (map (\<lambda>p. z (snd p)) acc)"
  shows "sorted (map (\<lambda>p. z (snd p)) (foldl (\<lambda>a kd. insort_lt kd a) acc xs))
       \<and> mset (foldl (\<lambda>a kd. insort_lt kd a) acc xs) = mset acc + mset xs
       \<and> (\<forall>k. filter (\<lambda>p. z (snd p) = k) (foldl (\<lambda>a kd. insort_lt kd a) acc xs)
              = filter (\<lambda>p. z (snd p) = k) acc @ filter (\<lambda>p. z (snd p) = k) xs)"
  using assms
proof (induction xs arbitrary: acc)
  case Nil
  then show ?case by simp
next
  case (Cons x xs)
  have x: "fst x = PInt (z (snd x))" using Cons.prems(2) by simp
  have 1: "\<forall>p \<in> set (insort_lt x acc). fst p = PInt (z (snd p))"
    using Cons.prems(1) x by (simp add: set_insort_lt)
  have 2: "\<forall>p \<in> set xs. fst p = PInt (z (snd p))" using Cons.prems(2) by simp
  have 3: "sorted (map (\<lambda>p. z (snd p)) (insort_lt x acc))"
    using sorted_insort_lt[OF x Cons.prems(1) Cons.prems(3)] .
  from Cons.IH[OF 1 2 3] filter_insort_lt[OF x Cons.prems(1) Cons.prems(3)]
  show ?case by (simp add: mset_insort_lt)
qed

lemma zorder_int_dict: "zorder_int d = Some n \<Longrightarrow> is_dict d \<and> zorder_key d = Inr (PInt n)"
  by (cases d) (auto simp: zorder_int_def zorder_key_def split: pyval.splits)

lemma with_keys_ints:
  assumes "list_all (\<lambda>d. zorder_int d \<noteq> None) ds"
  shows "efold (\<lambda>acc d. ebind (zorder_key d) (\<lambda>k. Inr (acc @ [(k, d)]))) acc ds
         = Inr (acc @ map (\<lambda>d. (PInt (zorder_of d), d)) ds)"
  using assms
proof (induction ds arbitrary: acc)
  case Nil
  then show ?case by simp
next
  case (Cons d ds)
  then obtain n where n: "zorder_int d = Some n" by auto
  then have "zorder_key d = Inr (PInt (zorder_of d))"
    using zorder_int_dict[OF n] by (simp add: zorder_of_def)
  with Cons show ?case by simp
qed

lemma sorted_displays_ints:
  assumes "list_all (\<lambda>d. zorder_int d \<noteq> None) ds"
  shows "\<exists>sds. sorted_displays B ds = Inr sds \<and> sorted (map zorder_of sds)
           \<and> mset sds = mset ds
           \<and> (\<forall>k. filter (\<lambda>d. zorder_of d = k) sds = filter (\<lambda>d. zorder_of d = k) ds)"
proof -
  define kds where "kds = map (\<lambda>d. (PInt (zorder_of d), d)) ds"
  define res where "res = foldl (\<lambda>a kd. insort_lt kd a) [] kds"
  have wk: "with_keys ds = Inr kds"
    using with_keys_ints[OF assms, of "[]"] by (simp add: with_keys_def kds_def)
  have "list_all (\<lambda>kd. sortable_key (fst kd)) kds"
    by (simp add: kds_def list_all_iff sortable_key_def)
  then have sd: "sorted_displays B ds = Inr (map snd res)"
    by (simp add: sorted_displays_def wk py_sorted_def res_def)
  have tagged: "\<forall>p \<in> set kds. fst p = PInt (zorder_of (snd p))"
    by (auto simp: kds_def)
  from foldl_insort_lt[of "[]" zorder_of kds] tagged
  have srt: "sorted (map (\<lambda>p. zorder_of (snd p)) res)"
    and ms: "mset res = mset kds"
    and flt: "\<And>k. filter (\<lambda>p. zorder_of (snd p) = k) res = filter (\<lambda>p. zorder_of (snd p) = k) kds"
    by (simp_all add: res_def)
  have a: "sorted (map zorder_of (map snd res))"
    using srt by (simp add: comp_def)
  have "mset (map snd res) = mset (map snd kds)"
    using ms by (metis mset_map)
  then have b: "mset (map snd res) = mset ds"
    by (simp add: kds_def comp_def)
  have c: "filter (\<lambda>d. zorder_of d = k) (map snd res) = filter (\<lambda>d. zorder_of d = k) ds" for k
  proof -
    have "filter (\<lambda>d. zorder_of d = k) (map snd res)
          = map snd (filter (\<lambda>p. zorder_of (snd p) = k) res)"
      by (simp add: filter_map comp_def)
    also have "\<dots> = map snd (filter (\<lambda>p. zorder_of (snd p) = k) kds)"
      by (simp add: flt)
    also have "\<dots> = filter (\<lambda>d. zorder_of d = k) ds"
      by (simp add: kds_def filter_map comp_def)
    finally show ?thesis .
  qed
  from sd a b c show ?thesis by blast
qed

lemma zorder_int_dicts:
  assumes "list_all (\<lambda>d. zorder_int d \<noteq> None) ds"
  shows "list_all is_dict ds"
  using assms zorder_int_dict by (fastforce simp: list_all_iff)



section \<open>Failures while mapping a shape\<close>

lemma shape_outcome_error:
  "shape_outcome B (PDict kvs) = Inl e \<Longrightarrow>
     shape_elements B (PDict kvs) = []
     \<and> shape_warnings B (PDict kvs) = [(lookup_default kvs ''type'' (PStr []), e)]"
  by (simp add: shape_elements_def shape_warnings_def)

lemma convert_after_bbox:
  assumes "lookup_default ckvs ''displays'' (PList []) = PList ds"
    and "canvas_bbox ds = Inr (Some bb)"
    and "sorted_displays B ds = Inr sds"
    and "list_all is_dict sds"
  shows "convert_canvas_to_svg B (PDict ckvs) i =
           Inr (if concat (map (shape_elements B) (filter shown sds)) = [] then None
                else Some (svg_document B bb i (lookup_default ckvs ''title'' (PStr ''untitled''))
                             (concat (map (shape_elements B) (filter shown sds)))),
                concat (map (shape_warnings B) (filter shown sds)))"
proof -
  have "ds \<noteq> []"
    using assms(2) by (auto simp: canvas_bbox_def init_bbox_def feq_def)
  moreover have "render_loop B sds = Inr (concat (map (shape_elements B) (filter shown sds)),
                                          concat (map (shape_warnings B) (filter shown sds)))"
    using efold_render_step[OF assms(4), of B "[]" "[]"] by (simp add: render_loop_def)
  ultimately show ?thesis
    using assms(1,2,3) by (simp add: convert_canvas_to_svg_def iter_values_def)
qed

text \<open>
  C9. The loop over the (sorted) displays never raises: each visible display contributes
  its element, or nothing, and a display whose mapping raises contributes no element and
  one warning, the others being processed as before. A kind that is not one of the five
  gives no element and no warning. Once the bounding box and the sorting are done, the
  conversion of the canvas returns.
\<close>

theorem render_failures_are_caught:
  assumes "list_all is_dict ds"
  shows "render_loop B ds = Inr (concat (map (shape_elements B) (filter shown ds)),
                                 concat (map (shape_warnings B) (filter shown ds)))
       \<and> (\<forall>kvs e. shape_outcome B (PDict kvs) = Inl e \<longrightarrow>
             shape_elements B (PDict kvs) = []
             \<and> shape_warnings B (PDict kvs) = [(lookup_default kvs ''type'' (PStr []), e)])
       \<and> (\<forall>d dtype. dtype \<notin> {PStr ''PATH'', PStr ''RECT'', PStr ''LINE'', PStr ''BITMAP'',
                                PStr ''TEXT''} \<longrightarrow> render_display B d dtype = Inr None)
       \<and> (\<forall>ckvs i bb ds0. lookup_default ckvs ''displays'' (PList []) = PList ds0
             \<and> canvas_bbox ds0 = Inr (Some bb) \<and> sorted_displays B ds0 = Inr ds \<longrightarrow>
             (\<exists>doc. convert_canvas_to_svg B (PDict ckvs) i
                      = Inr (doc, concat (map (shape_warnings B) (filter shown ds)))))"
proof (intro conjI allI impI)
  show "render_loop B ds = Inr (concat (map (shape_elements B) (filter shown ds)),
                                concat (map (shape_warnings B) (filter shown ds)))"
    using efold_render_step[OF assms, of B "[]" "[]"] by (simp add: render_loop_def)
next
  fix kvs e assume "shape_outcome B (PDict kvs) = Inl e"
  then show "shape_elements B (PDict kvs) = []"
    and "shape_warnings B (PDict kvs) = [(lookup_default kvs ''type'' (PStr []), e)]"
    using shape_outcome_error by blast+
next
  fix d dtype
  assume "dtype \<notin> {PStr ''PATH'', PStr ''RECT'', PStr ''LINE'', PStr ''BITMAP'', PStr ''TEXT''}"
  then show "render_display B d dtype = Inr None"
    by (simp add: render_display_def)
next
  fix ckvs i bb ds0
  assume "lookup_default ckvs ''displays'' (PList []) = PList ds0
          \<and> canvas_bbox ds0 = Inr (Some bb) \<and> sorted_displays B ds0 = Inr ds"
  then show "\<exists>doc. convert_canvas_to_svg B (PDict ckvs) i
                      = Inr (doc, concat (map (shape_warnings B) (filter shown ds)))"
    using convert_after_bbox[of ckvs ds0 bb B ds i] assms by simp
qed

lemmas mixed_defs = mixed_displays_def bad_rect_def unknown_shape_def plain_line_def

lemma mixed_bbox:
  "canvas_bbox mixed_displays =
     Inr (Some \<lparr>min_x = NFloat (Fin (- 5)), min_y = NFloat (Fin (- 4)),
                max_x = NFloat (Fin 5), max_y = NFloat (Fin 4)\<rparr>)"
  by (simp add: mixed_defs canvas_bbox_def bbox_step_def init_bbox_def pad_bbox_def
      abs_scale_def half_extent_def py_abs_def py_mul_def py_truediv_def num_truediv_def
      py_sub_def py_add_def py_min_def py_max_def num_gt_def to_float_def feq_def fsub_def
      lookup_default_def)

lemma mixed_sorted: "sorted_displays demo_builtins mixed_displays = Inr mixed_displays"
  by (simp add: mixed_defs sorted_displays_def with_keys_def zorder_key_def
      py_sorted_def sortable_key_def lookup_default_def)

lemma mixed_outcomes:
  "shape_outcome demo_builtins bad_rect = Inl TypeError"
  "shape_outcome demo_builtins unknown_shape = Inr None"
  \<open>shape_outcome demo_builtins plain_line =
     Inr (Some ''<line transform="translate(0, 0)" x1="0" y1="0" x2="3" y2="4" stroke="#000000" stroke-width="1" />'')\<close>
    by (simp_all add: mixed_defs shape_outcome_def render_display_def render_rect_def
        render_line_def build_transform_def get_fill_color_def get_stroke_props_def neg_half_def
        py_neg_def num_truediv_def py_gt_def default_stroke_def to_float_def eval_simps)

theorem render_failures_are_caught_witness:
  \<open>list_all is_dict mixed_displays
   \<and> render_loop demo_builtins mixed_displays =
       Inr ([''<line transform="translate(0, 0)" x1="0" y1="0" x2="3" y2="4" stroke="#000000" stroke-width="1" />''],
            [(PStr ''RECT'', TypeError)])
   \<and> (\<exists>doc. convert_canvas_to_svg demo_builtins mixed_canvas 1
               = Inr (Some doc, [(PStr ''RECT'', TypeError)]))\<close>
proof -
  have d: "list_all is_dict mixed_displays"
    by (simp add: mixed_defs)
  have sh: "filter shown mixed_displays = mixed_displays"
    by (simp add: mixed_defs shown_def display_visible_def lookup_default_def)
  have els: \<open>concat (map (shape_elements demo_builtins) mixed_displays) =
    [''<line transform="translate(0, 0)" x1="0" y1="0" x2="3" y2="4" stroke="#000000" stroke-width="1" />'']\<close>
    by (simp add: mixed_displays_def shape_elements_def mixed_outcomes)
  have ws: "concat (map (shape_warnings demo_builtins) mixed_displays) = [(PStr ''RECT'', TypeError)]"
    by (simp add: mixed_displays_def shape_warnings_def mixed_outcomes)
       (simp add: bad_rect_def lookup_default_def)
  note caught = render_failures_are_caught[OF d, of demo_builtins]
  have loop: \<open>render_loop demo_builtins mixed_displays =
       Inr ([''<line transform="translate(0, 0)" x1="0" y1="0" x2="3" y2="4" stroke="#000000" stroke-width="1" />''],
            [(PStr ''RECT'', TypeError)])\<close>
    using caught by (simp add: sh els ws)
  have "lookup_default [(''title'', PStr ''demo''), (''displays'', PList mixed_displays)]
          ''displays'' (PList []) = PList mixed_displays
        \<and> canvas_bbox mixed_displays
            = Inr (Some \<lparr>min_x = NFloat (Fin (- 5)), min_y = NFloat (Fin (- 4)),
                          max_x = NFloat (Fin 5), max_y = NFloat (Fin 4)\<rparr>)
        \<and> sorted_displays demo_builtins mixed_displays = Inr mixed_displays"
    by (simp add: mixed_bbox mixed_sorted lookup_default_def)
  with caught have "\<exists>doc. convert_canvas_to_svg demo_builtins mixed_canvas 1
      = Inr (doc, concat (map (shape_warnings demo_builtins) (filter shown mixed_displays)))"
    unfolding mixed_canvas_def by blast
  then obtain doc where cv: "convert_canvas_to_svg demo_builtins mixed_canvas 1
      = Inr (doc, [(PStr ''RECT'', TypeError)])"
    by (auto simp: sh ws)
  have "doc \<noteq> None"
    using cv convert_after_bbox[of "[(''title'', PStr ''demo''), (''displays'', PList mixed_displays)]"
        mixed_displays _ demo_builtins mixed_displays 1, OF _ mixed_bbox mixed_sorted d]
    by (auto simp: mixed_canvas_def lookup_default_def sh els)
  with cv d loop show ?thesis by auto
qed

section \<open>Canvases without output\<close>

lemma efold_bbox_hidden:
  "\<forall>d \<in> set ds. display_visible d = Inr False \<Longrightarrow> efold bbox_step bb ds = Inr bb"
  by (induction ds) (simp_all add: bbox_step_def)

lemma canvas_bbox_hidden:
  "\<forall>d \<in> set ds. display_visible d = Inr False \<Longrightarrow> canvas_bbox ds = Inr None"
  by (simp add: canvas_bbox_def efold_bbox_hidden init_bbox_def feq_def)

lemma convert_cases:
  assumes "lookup_default ckvs ''displays'' (PList []) = PList ds"
  shows "convert_canvas_to_svg B (PDict ckvs) i =
           (if ds = [] then Inr (None, [])
            else ebind (canvas_bbox ds) (\<lambda>box.
                   case box of
                     None \<Rightarrow> Inr (None, [])
                   | Some bb \<Rightarrow>
                       ebind (sorted_displays B ds) (\<lambda>sds.
                       ebind (render_loop B sds) (\<lambda>st.
                       if fst st = [] then Inr (None, snd st)
                       else Inr (Some (svg_document B bb i
                                   (lookup_default ckvs ''title'' (PStr ''untitled'')) (fst st)),
                                 snd st)))))"
  using assms by (simp add: convert_canvas_to_svg_def iter_values_def cong: if_cong)

text \<open>
  C6. A canvas whose displays are all not visible (or that has no display) gives no
  document: the conversion returns \<^verbatim>\<open>None\<close>. A canvas whose visible displays all map to
  nothing (an empty element, an unknown kind, a caught failure) gives no document either.
\<close>

theorem no_visible_no_document:
  assumes "lookup_default ckvs ''displays'' (PList []) = PList ds"
  shows "((\<forall>d \<in> set ds. display_visible d = Inr False) \<longrightarrow>
            convert_canvas_to_svg B (PDict ckvs) i = Inr (None, []))
       \<and> (list_all (\<lambda>d. zorder_int d \<noteq> None) ds
            \<and> (\<forall>d \<in> set ds. shown d \<longrightarrow> shape_elements B d = []) \<longrightarrow>
            (\<forall>svg ws. convert_canvas_to_svg B (PDict ckvs) i \<noteq> Inr (Some svg, ws)))"
proof (intro conjI impI allI)
  assume "\<forall>d \<in> set ds. display_visible d = Inr False"
  then show "convert_canvas_to_svg B (PDict ckvs) i = Inr (None, [])"
    by (simp add: convert_cases[OF assms] canvas_bbox_hidden)
next
  fix svg ws
  assume h: "list_all (\<lambda>d. zorder_int d \<noteq> None) ds
             \<and> (\<forall>d \<in> set ds. shown d \<longrightarrow> shape_elements B d = [])"
  from h sorted_displays_ints[of ds B] obtain sds where
    sds: "sorted_displays B ds = Inr sds" "mset sds = mset ds"
    by blast
  from sds(2) have eq: "set sds = set ds" by (rule mset_eq_setD)
  from h zorder_int_dicts[of ds] eq have "list_all is_dict sds"
    by (simp add: list_all_iff)
  then have loop: "render_loop B sds = Inr (concat (map (shape_elements B) (filter shown sds)),
                                concat (map (shape_warnings B) (filter shown sds)))"
    using efold_render_step[of sds B "[]" "[]"] by (simp add: render_loop_def)
  from eq h have "concat (map (shape_elements B) (filter shown sds)) = []"
    by auto
  with sds loop show "convert_canvas_to_svg B (PDict ckvs) i \<noteq> Inr (Some svg, ws)"
    by (auto simp: convert_cases[OF assms] ebind_def split: sum.splits option.splits)
qed

theorem no_visible_no_document_witness:
  "convert_canvas_to_svg demo_builtins hidden_canvas 0 = Inr (None, [])
   \<and> convert_canvas_to_svg demo_builtins empty_output_canvas 0 = Inr (None, [])"
proof -
  define hidden where "hidden =
     [PDict [(''type'', PStr ''RECT''), (''visible'', PBool False), (''width'', PInt 4)],
      PDict [(''type'', PStr ''LINE''), (''visible'', PBool False)]]"
  define blank where "blank =
     [PDict [(''type'', PStr ''BITMAP''), (''base64'', PStr [])],
      PDict [(''type'', PStr ''PATH'')]]"
  have 1: "lookup_default [(''displays'', PList hidden)] ''displays'' (PList []) = PList hidden"
    by (simp add: lookup_default_def)
  have 2: "\<forall>d \<in> set hidden. display_visible d = Inr False"
    by (simp add: hidden_def display_visible_def lookup_default_def)
  have a: "convert_canvas_to_svg demo_builtins hidden_canvas 0 = Inr (None, [])"
    using no_visible_no_document[OF 1, of demo_builtins 0] 2
    by (simp add: hidden_canvas_def hidden_def)
  have 3: "lookup_default [(''displays'', PList blank)] ''displays'' (PList []) = PList blank"
    by (simp add: lookup_default_def)
  have 4: "list_all (\<lambda>d. zorder_int d \<noteq> None) blank"
    by (simp add: blank_def zorder_int_def lookup_default_def)
  have 5: "\<forall>d \<in> set blank. shown d \<longrightarrow> shape_elements demo_builtins d = []"
    by (simp add: blank_def shape_elements_def shape_outcome_def render_display_def
        render_bitmap_def render_path_def lookup_default_def)
  have "\<forall>svg ws. convert_canvas_to_svg demo_builtins empty_output_canvas 0 \<noteq> Inr (Some svg, ws)"
    using no_visible_no_document[OF 3, of demo_builtins 0] 4 5
    by (simp add: empty_output_canvas_def blank_def)
  moreover have "\<exists>doc. convert_canvas_to_svg demo_builtins empty_output_canvas 0 = Inr (doc, [])"
    by (simp add: empty_output_canvas_def convert_canvas_to_svg_def iter_values_def
        canvas_bbox_def bbox_step_def init_bbox_def pad_bbox_def display_visible_def
        abs_scale_def half_extent_def py_abs_def py_mul_def py_truediv_def num_truediv_def
        py_sub_def py_add_def py_min_def py_max_def num_gt_def to_float_def feq_def fsub_def
        sorted_displays_def with_keys_def zorder_key_def py_sorted_def sortable_key_def
        render_loop_def render_step_def render_display_def render_bitmap_def render_path_def
        lookup_default_def)
  ultimately have b: "convert_canvas_to_svg demo_builtins empty_output_canvas 0 = Inr (None, [])"
    by (metis option.exhaust)
  from a b show ?thesis by simp
qed

section \<open>The default of the visibility flag\<close>





section \<open>The viewport\<close>



















end
